theory Spec2Isabelle
  imports Main "HOL-Library.AList" "HOL-Library.Word"
begin

section \<open>Configuration types (internal/config/config.go)\<close>

record MinecraftServerConfig =
  Name :: string
  Port :: int
  Version :: string
  Properties :: "(string \<times> string) list"
  WorldName :: string
  Seed :: string
  Gamemode :: string
  Difficulty :: string
  MaxPlayers :: int
  OnlineMode :: bool
  PvP :: bool
  AllowFlight :: bool
  Motd :: string
  Whitelist :: "string list"
  Ops :: "string list"
  LevelType :: string
  LevelSeed :: string
  DefaultPlayerPermissionLevel :: string
  ContentLogFileEnabled :: bool
  EnableScripts :: bool
  EnableCommandBlocking :: bool
  MaxThreads :: int
  PlayerIdleTimeout :: int
  MaxWorldSize :: int

record RepoConfig =
  Servers :: "MinecraftServerConfig list"

text \<open>
  \<open>config.ServerConfig\<close>. The manager reads \<open>m.config.Server.FirstRun\<close> and its test
  builds \<open>config.ServerConfig{FirstRun: true}\<close>; the field is declared here with the other
  four. A Go \<open>int\<close> field is an \<open>int\<close> here; where the code computes with it the 64-bit
  wrap-around is written out.
\<close>

record ServerConfig =
  BaseDir :: string
  MaxInstances :: int
  BedrockPath :: string
  MemoryLimit :: string
  FirstRun :: bool

record GitHubConfig =
  RepoOwner :: string
  RepoName :: string
  Branch :: string
  ConfigPath :: string
  PollInterval :: int

text \<open>The only field of \<open>HTTPConfig\<close> is \<open>Port\<close>; it is named \<open>HTTPPort\<close> here.\<close>

record HTTPConfig =
  HTTPPort :: int

record Config =
  GitHub :: GitHubConfig
  HTTP :: HTTPConfig
  Server :: ServerConfig

text \<open>
  Go's \<open>int\<close> and \<open>int64\<close> hold 64 bits and wrap around: \<open>wrap64\<close> is the value a
  mathematical result has in them.
\<close>

definition wrap64 :: "int \<Rightarrow> int" where
  "wrap64 x = (x + 9223372036854775808) mod 18446744073709551616 - 9223372036854775808"

section \<open>The manager's data (internal/server)\<close>

text \<open>
  \<open>Process\<close> is the \<open>*exec.Cmd\<close> of the instance: \<open>None\<close> is the nil pointer, \<open>Some p\<close> the
  command whose operating-system process has id \<open>p\<close>. \<open>Config\<close> is a pointer
  (\<open>*config.MinecraftServerConfig\<close>): an address in the store \<open>cells\<close> of the world below.
  Times are milliseconds.
\<close>

record MinecraftServer =
  Config :: nat
  Process :: "nat option"
  Status :: string
  StartTime :: nat
  ServerPort :: int
  Logs :: "string list"
  MaxLogs :: int

text \<open>
  \<open>servers\<close> is a Go map. It is kept as an association list with distinct keys so that
  \<open>len\<close>, lookup, \<open>delete\<close> and \<open>range\<close> all compute; the list order is one of the iteration
  orders Go may choose.
\<close>

record Manager =
  config :: Config
  servers :: "(string \<times> MinecraftServer) list"
  lastConfig :: "RepoConfig option"
  lastCommitSHA :: string
  bedrockPath :: string

definition NewManager :: "Config \<Rightarrow> Manager" where
  "NewManager cfg =
     \<lparr>config = cfg, servers = [], lastConfig = None, lastCommitSHA = [], bedrockPath = []\<rparr>"

section \<open>The world outside the manager\<close>

text \<open>
  \<open>NilSignal\<close> is the nil interface value \<open>os.Signal(nil)\<close> that \<open>killProcessesOnPort\<close>
  passes to \<open>Process.Signal\<close>.
\<close>

datatype Signal = Interrupt | Kill | NilSignal

datatype Event =
    Signalled nat Signal
  | Waited nat
  | ProcessStarted string nat

record Proc =
  boundPort :: int
  alive :: bool
  exitsOnInterrupt :: bool

record World =
  procs :: "(nat \<times> Proc) list"
  nextPid :: nat
  clock :: nat
  cells :: "nat \<Rightarrow> MinecraftServerConfig"
  nextCell :: nat
  trace :: "Event list"

type_synonym State = "Manager \<times> World"

type_synonym byte = "8 word"

text \<open>The files the archive steps touch: a path has contents or does not exist.\<close>

type_synonym FS = "string \<Rightarrow> byte list option"

datatype InitError =
    OpenFailed string
  | LayerNotFound string
  | HashFailed string
  | HashesDontMatch string string
  | ExtractFailed
  | ExecutableNotFound

text \<open>
  What the environment decides. During one \<open>startServer\<close>: the first step that fails, if
  any, and how the launched binary reacts to an interrupt. During initialisation:
  \<open>sha256Hex\<close> is \<open>hex.EncodeToString\<close> of the SHA-256 digest (\<open>crypto/sha256\<close>, not
  part of the repository), of which the manager's functions use nothing but the value; \<open>interfere\<close> is what other actors do to the files between the
  writing of the layers and their reading back (the identity in an undisturbed run);
  \<open>extractOutcome\<close> is how \<open>unzip\<close>, \<open>tar\<close>, the search for the executable and \<open>chmod\<close>
  end on the recombined bytes; \<open>Abs\<close> is \<open>filepath.Abs\<close> in the working directory.
\<close>

datatype StartStep =
    MkdirAll | CheckBedrockServer | CreateServerProperties | CopyServerProperties
  | CreatePermissionsFile | CreateWhitelistFile | CmdStart

record Env =
  startFailure :: "MinecraftServerConfig \<Rightarrow> StartStep option"
  serverExitsOnInterrupt :: bool
  sha256Hex :: "byte list \<Rightarrow> string"
  interfere :: "FS \<Rightarrow> FS"
  extractOutcome :: "byte list \<Rightarrow> InitError option"
  Abs :: "string \<Rightarrow> string"

definition sleep :: "nat \<Rightarrow> World \<Rightarrow> World" where
  "sleep ms w = w\<lparr>clock := clock w + ms\<rparr>"

text \<open>\<open>lsof -ti :port\<close>: the ids of the live processes bound to the port.\<close>

definition lsof :: "World \<Rightarrow> int \<Rightarrow> nat list" where
  "lsof w port = map fst (filter (\<lambda>(pid, p). alive p \<and> boundPort p = port) (procs w))"

text \<open>
  \<open>os.Process.Signal\<close> of the Go standard library, which the repository calls. The boolean
  is \<open>err == nil\<close>. The library first asserts that the signal is a \<open>syscall.Signal\<close>
  (\<open>s, ok := sig.(syscall.Signal)\<close>) and returns the error
  \<open>os: unsupported signal type\<close> when it is not, which is the case of the nil interface
  value whatever the state of the process. A real signal reaches a live process only; an
  interrupt makes the process exit when it honours interrupts, a kill always does.
\<close>

definition deliver :: "Signal \<Rightarrow> Proc \<Rightarrow> Proc" where
  "deliver sig p =
     (case sig of
        Kill \<Rightarrow> p\<lparr>alive := False\<rparr>
      | Interrupt \<Rightarrow> (if exitsOnInterrupt p then p\<lparr>alive := False\<rparr> else p)
      | NilSignal \<Rightarrow> p)"

definition Process_Signal :: "nat \<Rightarrow> Signal \<Rightarrow> World \<Rightarrow> bool \<times> World" where
  "Process_Signal pid sig w =
     (let w1 = w\<lparr>trace := trace w @ [Signalled pid sig]\<rparr> in
      if sig = NilSignal then (False, w1)
      else
        (case map_of (procs w1) pid of
           None \<Rightarrow> (False, w1)
         | Some p \<Rightarrow>
             if alive p
             then (True, w1\<lparr>procs := AList.update pid (deliver sig p) (procs w1)\<rparr>)
             else (False, w1)))"

definition Process_Kill :: "nat \<Rightarrow> World \<Rightarrow> bool \<times> World" where
  "Process_Kill pid w = Process_Signal pid Kill w"

definition Cmd_Wait :: "nat \<Rightarrow> World \<Rightarrow> World" where
  "Cmd_Wait pid w = w\<lparr>trace := trace w @ [Waited pid]\<rparr>"

text \<open>A process ends by itself: what an exit-waiter's \<open>cmd.Wait()\<close> returns from.\<close>

definition processExited :: "nat \<Rightarrow> World \<Rightarrow> World" where
  "processExited pid w =
     (case map_of (procs w) pid of
        None \<Rightarrow> w
      | Some p \<Rightarrow> w\<lparr>procs := AList.update pid (p\<lparr>alive := False\<rparr>) (procs w)\<rparr>)"

section \<open>Port reclamation\<close>

text \<open>
  The body of the loop over the pids that \<open>lsof\<close> printed: interrupt, sleep two seconds,
  then \<open>if process.Signal(os.Signal(nil)) == nil\<close> kill. The errors are only logged.
\<close>

definition killOne :: "nat \<Rightarrow> World \<Rightarrow> World" where
  "killOne pid w =
     (let w1 = snd (Process_Signal pid Interrupt w);
          w2 = sleep 2000 w1;
          (stillRunning, w3) = Process_Signal pid NilSignal w2
      in if stillRunning then snd (Process_Kill pid w3) else w3)"

definition killProcessesOnPort :: "int \<Rightarrow> World \<Rightarrow> World" where
  "killProcessesOnPort port w =
     (let pids = lsof w port in
      if pids = [] then w
      else
        (let w1 = fold killOne pids w;
             w2 = sleep 500 (sleep 1000 w1)
         in if lsof w2 port \<noteq> [] then sleep 2000 w2 else w2))"

definition startupPorts :: "int list" where
  "startupPorts =
     [19132, 19133, 19134, 19135, 19136,
      20132, 20133, 20134, 20135, 20136,
      19137, 19138, 19139, 19140, 19141,
      20137, 20138, 20139, 20140, 20141]"

definition cleanupPortsOnStartup :: "World \<Rightarrow> World" where
  "cleanupPortsOnStartup w = sleep 2000 (fold killProcessesOnPort startupPorts w)"

section \<open>Starting, stopping and watching one instance\<close>

text \<open>
  \<open>startServer\<close> receives a pointer and reads the configuration through it. The port
  \<open>20000 + serverConfig.Port - 19132\<close> is computed in a 64-bit \<open>int\<close>. A failing
  \<open>MkdirAll\<close> returns before any port is touched; every later failure returns after the
  two port clean-ups and the three-second sleep.
\<close>

definition startServer :: "Env \<Rightarrow> nat \<Rightarrow> State \<Rightarrow> State" where
  "startServer env serverConfig s =
     (let (m, w) = s; sc = cells w serverConfig in
      if startFailure env sc = Some MkdirAll then (m, w)
      else
        (let actualPort = wrap64 (20000 + Port sc - 19132);
             w1 = killProcessesOnPort actualPort w;
             w2 = killProcessesOnPort 19133 w1;
             w3 = sleep 3000 w2
         in if startFailure env sc \<noteq> None then (m, w3)
            else
              (let cmd = nextPid w3;
                   w4 = w3\<lparr>procs := procs w3 @
                              [(cmd, \<lparr>boundPort = actualPort, alive = True,
                                      exitsOnInterrupt = serverExitsOnInterrupt env\<rparr>)],
                           nextPid := Suc cmd,
                           trace := trace w3 @ [ProcessStarted (Name sc) cmd]\<rparr>;
                   server = \<lparr>Config = serverConfig, Process = Some cmd,
                             Status = ''starting'', StartTime = clock w4,
                             ServerPort = Port sc, Logs = [], MaxLogs = 100\<rparr>
               in (m\<lparr>servers := AList.update (Name sc) server (servers m)\<rparr>,
                   sleep 5000 w4))))"

definition stopServer :: "string \<Rightarrow> State \<Rightarrow> State" where
  "stopServer name s =
     (let (m, w) = s in
      case map_of (servers m) name of
        None \<Rightarrow> (m, w)
      | Some server \<Rightarrow>
          (let w1 = (case Process server of
                       None \<Rightarrow> w
                     | Some cmd \<Rightarrow> Cmd_Wait cmd (snd (Process_Kill cmd w)))
           in (m\<lparr>servers := AList.delete name (servers m)\<rparr>, w1)))"

definition stopAllServers :: "State \<Rightarrow> State" where
  "stopAllServers s = fold stopServer (map fst (servers (fst s))) s"

text \<open>
  \<open>monitorServer name cmd\<close> after \<open>cmd.Wait()\<close> has returned; \<open>failed\<close> is \<open>err != nil\<close>.
  The body looks the entry up by \<open>name\<close> and never reads \<open>cmd\<close> again.
\<close>

definition monitorServer :: "string \<Rightarrow> nat \<Rightarrow> bool \<Rightarrow> Manager \<Rightarrow> Manager" where
  "monitorServer name cmd failed m =
     (case map_of (servers m) name of
        None \<Rightarrow> m
      | Some server \<Rightarrow>
          m\<lparr>servers :=
              AList.update name
                (server\<lparr>Status := (if failed then ''crashed'' else ''stopped'')\<rparr>)
                (servers m)\<rparr>)"

section \<open>Reconciliation\<close>

definition serverConfigChanged :: "MinecraftServerConfig \<Rightarrow> MinecraftServerConfig \<Rightarrow> bool" where
  "serverConfigChanged old new =
     (Port old \<noteq> Port new \<or> Version old \<noteq> Version new \<or> WorldName old \<noteq> WorldName new)"

text \<open>First loop of \<open>updateServers\<close>: every tracked name is visited once.\<close>

definition stopRemoved :: "RepoConfig \<Rightarrow> State \<Rightarrow> State" where
  "stopRemoved repoConfig s =
     fold (\<lambda>name s'. if name \<in> set (map Name (Servers repoConfig)) then s'
                      else stopServer name s')
          (map fst (servers (fst s))) s"

text \<open>
  Second loop. The module is built as Go 1.21, where \<open>for _, serverConfig := range\<close> has a
  single variable for the whole loop: \<open>var\<close> is its address, each iteration stores the
  current element there, and \<open>&serverConfig\<close> is the same pointer every time.
\<close>

definition admitOne :: "Env \<Rightarrow> nat \<Rightarrow> MinecraftServerConfig \<Rightarrow> State \<Rightarrow> State" where
  "admitOne env var elem s =
     (let (m, w0) = s; w = w0\<lparr>cells := (cells w0)(var := elem)\<rparr> in
      if int (length (servers m)) \<ge> MaxInstances (Server (config m)) then (m, w)
      else
        (case map_of (servers m) (Name (cells w var)) of
           Some existingServer \<Rightarrow>
             if serverConfigChanged (cells w (Config existingServer)) (cells w var)
             then startServer env var (stopServer (Name (cells w var)) (m, w))
             else (m, w)
         | None \<Rightarrow> startServer env var (m, w)))"

definition updateServers :: "Env \<Rightarrow> RepoConfig \<Rightarrow> State \<Rightarrow> State" where
  "updateServers env repoConfig s =
     (let (m, w) = stopRemoved repoConfig s;
          var = nextCell w;
          w1 = w\<lparr>nextCell := Suc var\<rparr>
      in fold (admitOne env var) (Servers repoConfig) (m, w1))"

text \<open>
  The two calls a tick makes on the GitHub client, as the results they would give
  (\<open>Inl\<close> the error).
\<close>

record GithubClient =
  GetLastCommitSHA :: "string + string"
  GetConfig :: "string + RepoConfig"

datatype Panic = SliceBoundsOutOfRange | NonPositiveTickerInterval

text \<open>
  \<open>commitSHA[:8]\<close> is evaluated as an argument of the log call; Go panics when the string
  has fewer than eight bytes.
\<close>

definition pollConfiguration :: "Env \<Rightarrow> GithubClient \<Rightarrow> State \<Rightarrow> Panic + State" where
  "pollConfiguration env githubClient s =
     (let (m, w) = s in
      case GetLastCommitSHA githubClient of
        Inl err \<Rightarrow> Inr (m, w)
      | Inr commitSHA \<Rightarrow>
          if FirstRun (Server (config m)) \<and> lastCommitSHA m = [] then
            (let m1 = m\<lparr>lastCommitSHA := commitSHA\<rparr> in
             case GetConfig githubClient of
               Inl err \<Rightarrow> Inr (m1, w)
             | Inr repoConfig \<Rightarrow>
                 (let (m2, w2) = updateServers env repoConfig (m1, w)
                  in Inr (m2\<lparr>lastConfig := Some repoConfig\<rparr>, w2)))
          else if commitSHA = lastCommitSHA m then Inr (m, w)
          else if length commitSHA < 8 then Inl SliceBoundsOutOfRange
          else
            (case GetConfig githubClient of
               Inl err \<Rightarrow> Inr (m, w)
             | Inr repoConfig \<Rightarrow>
                 (let (m2, w2) = updateServers env repoConfig (m, w)
                  in Inr (m2\<lparr>lastConfig := Some repoConfig,
                              lastCommitSHA := commitSHA\<rparr>, w2))))"

section \<open>Status snapshot\<close>

text \<open>
  \<open>Uptime\<close> is kept as a number of milliseconds instead of the formatted duration.
  \<open>PlayerCount\<close> is never assigned by \<open>GetStatus\<close> and keeps Go's zero value.
\<close>

record ServerStatus =
  st_Name :: string
  st_Status :: string
  st_Port :: int
  st_StartTime :: nat
  st_Uptime :: int
  st_PlayerCount :: int

record ManagerStatus =
  TotalServers :: int
  Running :: int
  Stopped :: int
  st_Servers :: "ServerStatus list"
  LastUpdate :: nat
  st_BedrockPath :: string

definition addStatus :: "nat \<Rightarrow> string \<times> MinecraftServer \<Rightarrow> ManagerStatus \<Rightarrow> ManagerStatus" where
  "addStatus now entry status =
     (let (name, server) = entry;
          serverStatus = \<lparr>st_Name = name, st_Status = Status server,
                           st_Port = ServerPort server, st_StartTime = StartTime server,
                           st_Uptime = int now - int (StartTime server),
                           st_PlayerCount = 0\<rparr>;
          status1 = (if Status server = ''running''
                     then status\<lparr>Running := Running status + 1\<rparr>
                     else status\<lparr>Stopped := Stopped status + 1\<rparr>)
      in status1\<lparr>st_Servers := st_Servers status1 @ [serverStatus]\<rparr>)"

definition GetStatus :: "Manager \<Rightarrow> nat \<Rightarrow> ManagerStatus" where
  "GetStatus m now =
     fold (addStatus now) (servers m)
       \<lparr>TotalServers = int (length (servers m)), Running = 0, Stopped = 0,
        st_Servers = [], LastUpdate = now, st_BedrockPath = bedrockPath m\<rparr>"

section \<open>Sequences of start, stop and exit-waiter transitions\<close>

text \<open>
  A start hands \<open>startServer\<close> a pointer, so the transition first stores the
  configuration in a fresh cell.
\<close>

datatype Transition =
    DoStart MinecraftServerConfig
  | DoStop string
  | DoExit string nat bool

fun step :: "Env \<Rightarrow> Transition \<Rightarrow> State \<Rightarrow> State" where
  "step env (DoStart sc) (m, w) =
     (let var = nextCell w;
          w1 = w\<lparr>cells := (cells w)(var := sc), nextCell := Suc var\<rparr>
      in startServer env var (m, w1))"
| "step env (DoStop name) (m, w) = stopServer name (m, w)"
| "step env (DoExit name cmd failed) (m, w) =
     (monitorServer name cmd failed m, processExited cmd w)"

definition run :: "Env \<Rightarrow> Transition list \<Rightarrow> State \<Rightarrow> State" where
  "run env ts s = fold (step env) ts s"

text \<open>The invariant as the data model words it, and what every entry satisfies instead.\<close>

definition hasHandle :: "MinecraftServer \<Rightarrow> bool" where
  "hasHandle server = (Process server \<noteq> None)"

definition handleIffActive :: "Manager \<Rightarrow> bool" where
  "handleIffActive m =
     list_all (\<lambda>entry. hasHandle (snd entry) =
                        (Status (snd entry) = ''starting'' \<or> Status (snd entry) = ''running''))
              (servers m)"

definition entryOk :: "string \<times> MinecraftServer \<Rightarrow> bool" where
  "entryOk entry =
     (hasHandle (snd entry) \<and>
      (Status (snd entry) = ''starting'' \<or> Status (snd entry) = ''stopped'' \<or>
       Status (snd entry) = ''crashed''))"

definition handleAlways :: "Manager \<Rightarrow> bool" where
  "handleAlways m = list_all entryOk (servers m)"

section \<open>Archive assembly\<close>

definition bedrockArchive :: string where
  "bedrockArchive = ''versions/bedrock-server.zip''"

definition recombinedFile :: string where
  "recombinedFile = ''versions/bedrock-server-recombined.zip''"

text \<open>\<open>%d\<close> of \<open>fmt.Sprintf\<close> on a number that is not negative.\<close>

definition digitChar :: "nat \<Rightarrow> char" where
  "digitChar d = ''0123456789'' ! d"

function itoa :: "nat \<Rightarrow> string" where
  "itoa n = (if n < 10 then [digitChar n] else itoa (n div 10) @ [digitChar (n mod 10)])"
  by pat_completeness auto
termination
  by (relation "measure id") auto

definition layerFile :: "nat \<Rightarrow> string" where
  "layerFile i = ''versions/bedrock-server.layer.'' @ itoa i"

declare itoa.simps [simp del]

text \<open>
  The ten sequential byte ranges as the design words them: ranges 0 to 8 hold
  \<open>floor(size/10)\<close> bytes, range 9 holds \<open>floor(size/10) + size mod 10\<close> bytes.
\<close>

definition chunkOf :: "byte list \<Rightarrow> nat \<Rightarrow> byte list" where
  "chunkOf payload i =
     take (if i = 9 then length payload div 10 + length payload mod 10
           else length payload div 10)
          (drop (i * (length payload div 10)) payload)"

fun isStart :: "Event \<Rightarrow> bool" where
  "isStart (ProcessStarted name pid) = True"
| "isStart (Signalled pid sig) = False"
| "isStart (Waited pid) = False"

definition content :: "FS \<Rightarrow> string \<Rightarrow> byte list" where
  "content fs path = (case fs path of None \<Rightarrow> [] | Some bytes \<Rightarrow> bytes)"

definition cleanupLayers :: "FS \<Rightarrow> FS" where
  "cleanupLayers fs =
     (fold (\<lambda>i fs'. fs'(layerFile i := None)) [0..<10] fs)(recombinedFile := None)"

text \<open>
  One iteration of the loop of \<open>splitArchive\<close>. \<open>off\<close> is the read position of the open
  archive. \<open>os.Create\<close> truncates the layer file, \<open>io.CopyN\<close> then moves at most
  \<open>actualLayerSize\<close> bytes; running into the end of the archive (\<open>io.EOF\<close>) is tolerated.
\<close>

definition copyLayer :: "string \<Rightarrow> nat \<Rightarrow> nat \<Rightarrow> nat \<Rightarrow> nat \<times> FS \<Rightarrow> nat \<times> FS" where
  "copyLayer archivePath layerSize remainder i st =
     (let (off, fs) = st;
          actualLayerSize = (if i = 9 then layerSize + remainder else layerSize);
          fs1 = fs(layerFile i \<mapsto> []);
          written = take actualLayerSize (drop off (content fs1 archivePath))
      in (off + length written, fs1(layerFile i \<mapsto> written)))"

definition splitArchive :: "string \<Rightarrow> FS \<Rightarrow> InitError + FS" where
  "splitArchive archivePath fs =
     (case fs archivePath of
        None \<Rightarrow> Inl (OpenFailed archivePath)
      | Some bytes \<Rightarrow>
          (let fileSize = length bytes;
               layerSize = fileSize div 10;
               remainder = fileSize mod 10
           in Inr (snd (fold (copyLayer archivePath layerSize remainder) [0..<10] (0, fs)))))"

definition calculateFileHash :: "Env \<Rightarrow> FS \<Rightarrow> string \<Rightarrow> InitError + string" where
  "calculateFileHash env fs filePath =
     (case fs filePath of
        None \<Rightarrow> Inl (HashFailed filePath)
      | Some bytes \<Rightarrow> Inr (sha256Hex env bytes))"

definition verifyIntegrity :: "Env \<Rightarrow> FS \<Rightarrow> InitError option" where
  "verifyIntegrity env fs =
     (case calculateFileHash env fs bedrockArchive of
        Inl err \<Rightarrow> Some err
      | Inr originalHash \<Rightarrow>
          (case calculateFileHash env fs recombinedFile of
             Inl err \<Rightarrow> Some err
           | Inr recombinedHash \<Rightarrow>
               if originalHash \<noteq> recombinedHash
               then Some (HashesDontMatch originalHash recombinedHash)
               else None))"

text \<open>The loop of \<open>recombineLayers\<close>: a missing layer ends it with an error.\<close>

fun appendLayers :: "nat list \<Rightarrow> FS \<Rightarrow> InitError + FS" where
  "appendLayers [] fs = Inr fs"
| "appendLayers (i # rest) fs =
     (case fs (layerFile i) of
        None \<Rightarrow> Inl (LayerNotFound (layerFile i))
      | Some bytes \<Rightarrow>
          appendLayers rest (fs(recombinedFile \<mapsto> content fs recombinedFile @ bytes)))"

definition recombineLayers :: "Env \<Rightarrow> FS \<Rightarrow> InitError + FS" where
  "recombineLayers env fs =
     (case appendLayers [0..<10] (fs(recombinedFile \<mapsto> [])) of
        Inl err \<Rightarrow> Inl err
      | Inr fs1 \<Rightarrow>
          (case verifyIntegrity env fs1 of
             Some err \<Rightarrow> Inl err
           | None \<Rightarrow> Inr fs1))"

definition extractArchive :: "Env \<Rightarrow> FS \<Rightarrow> InitError option" where
  "extractArchive env fs = extractOutcome env (content fs recombinedFile)"

definition IsAbs :: "string \<Rightarrow> bool" where
  "IsAbs path = (path \<noteq> [] \<and> hd path = CHR ''/'')"

definition initializeBedrockServer :: "Env \<Rightarrow> Manager \<times> FS \<Rightarrow> InitError + Manager \<times> FS" where
  "initializeBedrockServer env mf =
     (let (m, fs) = mf in
      case fs bedrockArchive of
        None \<Rightarrow>
          (if \<not> IsAbs (BedrockPath (Server (config m)))
           then Inr (m\<lparr>bedrockPath := Abs env (BedrockPath (Server (config m)))\<rparr>, fs)
           else Inr (m\<lparr>bedrockPath := BedrockPath (Server (config m))\<rparr>, fs))
      | Some bytes \<Rightarrow>
          (case splitArchive bedrockArchive (cleanupLayers fs) of
             Inl err \<Rightarrow> Inl err
           | Inr fs1 \<Rightarrow>
               (case recombineLayers env (interfere env fs1) of
                  Inl err \<Rightarrow> Inl err
                | Inr fs2 \<Rightarrow>
                    (case extractArchive env fs2 of
                       Some err \<Rightarrow> Inl err
                     | None \<Rightarrow>
                         Inr (m\<lparr>bedrockPath :=
                                  Abs env ''./bedrock-server-extracted/bedrock_server''\<rparr>,
                              fs2)))))"

section \<open>The main loop\<close>

text \<open>
  What happens while \<open>Start\<close> runs, in the order in which the manager's lock serialises
  it: a tick of the timer with the answers of the GitHub client, or the return of an
  exit-waiter. The end of the list is the cancellation of the context.
\<close>

datatype Occurrence =
    Tick GithubClient
  | Exited string nat bool

fun mainLoop :: "Env \<Rightarrow> Occurrence list \<Rightarrow> State \<Rightarrow> Panic + State" where
  "mainLoop env [] s = Inr (stopAllServers s)"
| "mainLoop env (Tick githubClient # rest) s =
     (case pollConfiguration env githubClient s of
        Inl p \<Rightarrow> Inl p
      | Inr s' \<Rightarrow> mainLoop env rest s')"
| "mainLoop env (Exited name cmd failed # rest) s =
     mainLoop env rest (monitorServer name cmd failed (fst s), processExited cmd (snd s))"

text \<open>
  \<open>time.Duration(PollInterval) * time.Second\<close> is a product of 64-bit integers in
  nanoseconds; \<open>time.NewTicker\<close> panics when its argument is not positive. The ticker is
  made after the initialisation has succeeded and before the first poll.
\<close>

definition tickerInterval :: "Manager \<Rightarrow> int" where
  "tickerInterval m = wrap64 (PollInterval (GitHub (config m)) * 1000000000)"

definition Start :: "Env \<Rightarrow> FS \<Rightarrow> GithubClient \<Rightarrow> Occurrence list \<Rightarrow> State \<Rightarrow> Panic + State" where
  "Start env fs githubClient occurrences s =
     (let (m, w) = s;
          w1 = cleanupPortsOnStartup w
      in case initializeBedrockServer env (m, fs) of
           Inl err \<Rightarrow> Inr (m, w1)
         | Inr (m1, fs1) \<Rightarrow>
             if tickerInterval m1 \<le> 0 then Inl NonPositiveTickerInterval
             else
               (case pollConfiguration env githubClient (m1, w1) of
                  Inl p \<Rightarrow> Inl p
                | Inr s1 \<Rightarrow> mainLoop env occurrences s1))"

section \<open>SHA-256\<close>

text \<open>
  \<open>crypto/sha256\<close> and \<open>encoding/hex\<close> belong to Go's standard library. This is SHA-256
  as FIPS 180-4 defines it, on 32-bit words kept as integers below \<open>2 ^ 32\<close>, with the
  digest written as 64 lower-case hexadecimal digits. The round constants and the initial
  hash value are written in decimal. It serves the example
  environments; the functions of the manager take the hash from their environment.
\<close>

unbundle bit_operations_syntax

definition add32 :: "int \<Rightarrow> int \<Rightarrow> int" where
  "add32 x y = take_bit 32 (x + y)"

definition rotr32 :: "nat \<Rightarrow> int \<Rightarrow> int" where
  "rotr32 n x = drop_bit n x OR push_bit (32 - n) (take_bit n x)"

definition choose32 :: "int \<Rightarrow> int \<Rightarrow> int \<Rightarrow> int" where
  "choose32 x y z = (x AND y) XOR ((x XOR 0xffffffff) AND z)"

definition majority32 :: "int \<Rightarrow> int \<Rightarrow> int \<Rightarrow> int" where
  "majority32 x y z = (x AND y) XOR (x AND z) XOR (y AND z)"

definition bigSigma0 :: "int \<Rightarrow> int" where
  "bigSigma0 x = rotr32 2 x XOR rotr32 13 x XOR rotr32 22 x"

definition bigSigma1 :: "int \<Rightarrow> int" where
  "bigSigma1 x = rotr32 6 x XOR rotr32 11 x XOR rotr32 25 x"

definition smallSigma0 :: "int \<Rightarrow> int" where
  "smallSigma0 x = rotr32 7 x XOR rotr32 18 x XOR drop_bit 3 x"

definition smallSigma1 :: "int \<Rightarrow> int" where
  "smallSigma1 x = rotr32 17 x XOR rotr32 19 x XOR drop_bit 10 x"

definition sha256K :: "int list" where
  "sha256K =
    [1116352408, 1899447441, 3049323471, 3921009573, 961987163, 1508970993,
     2453635748, 2870763221, 3624381080, 310598401, 607225278, 1426881987,
     1925078388, 2162078206, 2614888103, 3248222580, 3835390401, 4022224774,
     264347078, 604807628, 770255983, 1249150122, 1555081692, 1996064986,
     2554220882, 2821834349, 2952996808, 3210313671, 3336571891, 3584528711,
     113926993, 338241895, 666307205, 773529912, 1294757372, 1396182291,
     1695183700, 1986661051, 2177026350, 2456956037, 2730485921, 2820302411,
     3259730800, 3345764771, 3516065817, 3600352804, 4094571909, 275423344,
     430227734, 506948616, 659060556, 883997877, 958139571, 1322822218,
     1537002063, 1747873779, 1955562222, 2024104815, 2227730452, 2361852424,
     2428436474, 2756734187, 3204031479, 3329325298]"

definition sha256Init :: "int list" where
  "sha256Init = [1779033703, 3144134277, 1013904242, 2773480762,
                 1359893119, 2600822924, 528734635, 1541459225]"

text \<open>
  Padding: the byte \<open>0x80\<close>, zero bytes up to 56 modulo 64, and the length of the message
  in bits as eight bytes, most significant first.
\<close>

definition sha256Pad :: "byte list \<Rightarrow> int list" where
  "sha256Pad bytes =
     map uint bytes @ [0x80] @ replicate ((119 - length bytes mod 64) mod 64) 0 @
     map (\<lambda>i. take_bit 8 (drop_bit (8 * (7 - i)) (8 * int (length bytes)))) [0..<8]"

fun bigEndianWords :: "int list \<Rightarrow> int list" where
  "bigEndianWords (a # b # c # d # rest) =
     (push_bit 24 a OR push_bit 16 b OR push_bit 8 c OR d) # bigEndianWords rest"
| "bigEndianWords rest = []"

definition scheduleStep :: "nat \<Rightarrow> int list \<Rightarrow> int list" where
  "scheduleStep t w =
     w @ [add32 (add32 (smallSigma1 (w ! (t - 2))) (w ! (t - 7)))
                (add32 (smallSigma0 (w ! (t - 15))) (w ! (t - 16)))]"

definition messageSchedule :: "int list \<Rightarrow> int list" where
  "messageSchedule block = fold scheduleStep [16..<64] block"

definition sha256Round :: "int \<times> int \<Rightarrow> int list \<Rightarrow> int list" where
  "sha256Round kw s =
     (case s of
        [a, b, c, d, e, f, g, h] \<Rightarrow>
          (let t1 = add32 (add32 (add32 h (bigSigma1 e)) (choose32 e f g))
                          (add32 (fst kw) (snd kw));
               t2 = add32 (bigSigma0 a) (majority32 a b c)
           in [add32 t1 t2, a, b, c, add32 d t1, e, f, g])
      | _ \<Rightarrow> s)"

definition sha256Block :: "int list \<Rightarrow> int list \<Rightarrow> int list" where
  "sha256Block block hs =
     map2 add32 hs (fold sha256Round (zip sha256K (messageSchedule block)) hs)"

definition sha256Sum :: "byte list \<Rightarrow> int list" where
  "sha256Sum bytes =
     (let ws = bigEndianWords (sha256Pad bytes)
      in fold (\<lambda>i. sha256Block (take 16 (drop (16 * i) ws))) [0..<length ws div 16]
           sha256Init)"

definition hexDigit :: "nat \<Rightarrow> char" where
  "hexDigit d = ''0123456789abcdef'' ! d"

definition hexWord :: "int \<Rightarrow> string" where
  "hexWord x = map (\<lambda>i. hexDigit (nat (take_bit 4 (drop_bit (4 * (7 - i)) x)))) [0..<8]"

definition sha256SumHex :: "byte list \<Rightarrow> string" where
  "sha256SumHex bytes = concat (map hexWord (sha256Sum bytes))"

section \<open>Example inputs\<close>

definition exampleServer :: "string \<Rightarrow> int \<Rightarrow> MinecraftServerConfig" where
  "exampleServer name port =
     \<lparr>Name = name, Port = port, Version = ''1.20.10'', Properties = [],
      WorldName = ''world'', Seed = [], Gamemode = ''survival'', Difficulty = ''normal'',
      MaxPlayers = 20, OnlineMode = True, PvP = True, AllowFlight = False, Motd = [],
      Whitelist = [], Ops = [], LevelType = ''DEFAULT'', LevelSeed = [],
      DefaultPlayerPermissionLevel = ''member'', ContentLogFileEnabled = False,
      EnableScripts = False, EnableCommandBlocking = False, MaxThreads = 8,
      PlayerIdleTimeout = 30, MaxWorldSize = 0\<rparr>"

definition exampleConfig :: "bool \<Rightarrow> int \<Rightarrow> Config" where
  "exampleConfig firstRun maxInstances =
     \<lparr>GitHub = \<lparr>RepoOwner = ''owner'', RepoName = ''servers'', Branch = ''main'',
                ConfigPath = ''servers.yaml'', PollInterval = 60\<rparr>,
      HTTP = \<lparr>HTTPPort = 8080\<rparr>,
      Server = \<lparr>BaseDir = ''./servers'', MaxInstances = maxInstances,
                BedrockPath = ''./bedrock_server'', MemoryLimit = ''1G'',
                FirstRun = firstRun\<rparr>\<rparr>"

definition exampleWorld :: World where
  "exampleWorld =
     \<lparr>procs = [], nextPid = 100, clock = 0, cells = (\<lambda>a. exampleServer [] 0),
      nextCell = 0, trace = []\<rparr>"

text \<open>
  An environment in which every start succeeds, nothing disturbs the files, and the
  hash is SHA-256.
\<close>

definition exampleEnv :: Env where
  "exampleEnv =
     \<lparr>startFailure = (\<lambda>sc. None), serverExitsOnInterrupt = True,
      sha256Hex = sha256SumHex, interfere = (\<lambda>fs. fs),
      extractOutcome = (\<lambda>bytes. None), Abs = (\<lambda>path. ''/app/'' @ path)\<rparr>"

text \<open>A manager that has stored a fingerprint, outside first-run mode.\<close>

definition trackedManager :: Manager where
  "trackedManager =
     (NewManager (exampleConfig False 5))\<lparr>lastCommitSHA := ''0123456789abcdef''\<rparr>"

text \<open>A client that answers with the given fingerprint and a document of one server.\<close>

definition alphaClient :: "string \<Rightarrow> GithubClient" where
  "alphaClient commitSHA =
     \<lparr>GetLastCommitSHA = Inr commitSHA,
      GetConfig = Inr \<lparr>Servers = [exampleServer ''alpha'' 19132]\<rparr>\<rparr>"

text \<open>The fleet after one start of \<open>alpha\<close> in the example world.\<close>

definition alphaStarted :: State where
  "alphaStarted =
     step exampleEnv (DoStart (exampleServer ''alpha'' 19132))
       (NewManager (exampleConfig False 5), exampleWorld)"

text \<open>The same fleet after the process of \<open>alpha\<close> has exited cleanly.\<close>

definition alphaExited :: State where
  "alphaExited = step exampleEnv (DoExit ''alpha'' 100 False) alphaStarted"

text \<open>The same fleet after \<open>alpha\<close> was stopped, and after it was started once more.\<close>

definition alphaStopped :: State where
  "alphaStopped = step exampleEnv (DoStop ''alpha'') alphaStarted"

definition alphaRestarted :: State where
  "alphaRestarted = step exampleEnv (DoStart (exampleServer ''alpha'' 19132)) alphaStopped"

text \<open>A new manager in first-run mode, and a client whose document fetch fails.\<close>

definition firstRunManager :: Manager where
  "firstRunManager = NewManager (exampleConfig True 5)"

definition failingClient :: GithubClient where
  "failingClient = \<lparr>GetLastCommitSHA = Inr ''0123456789abcdef'', GetConfig = Inl ''timeout''\<rparr>"

text \<open>A fleet of one under a maximum of one: the first reconciliation of a new manager.\<close>

definition atCap :: State where
  "atCap = updateServers exampleEnv \<lparr>Servers = [exampleServer ''alpha'' 19132]\<rparr>
             (NewManager (exampleConfig False 1), exampleWorld)"

text \<open>A world with one foreign process on port 20000 that ignores interrupts.\<close>

definition stubbornWorld :: World where
  "stubbornWorld =
     exampleWorld\<lparr>procs := [(7, \<lparr>boundPort = 20000, alive = True, exitsOnInterrupt = False\<rparr>)]\<rparr>"

text \<open>A payload of 25 bytes, not divisible by ten, alone in the file system.\<close>

definition payload25 :: "byte list" where
  "payload25 = [1, 2, 3, 4, 5, 6, 7, 8, 9, 10, 11, 12, 13, 14, 15, 16, 17, 18, 19, 20,
                21, 22, 23, 24, 25]"

definition archiveOnly :: FS where
  "archiveOnly = (\<lambda>path. None)(bedrockArchive \<mapsto> payload25)"

text \<open>An environment in which the two bytes of layer 3 are overwritten before the layers
  are read back.\<close>

definition tamperEnv :: Env where
  "tamperEnv = exampleEnv\<lparr>interfere := (\<lambda>fs. fs(layerFile 3 \<mapsto> [255, 255]))\<rparr>"

text \<open>The layers as they are then read, and the bytes they concatenate to.\<close>

definition tamperedLayer :: "nat \<Rightarrow> byte list" where
  "tamperedLayer i = (if i = 3 then [255, 255] else chunkOf payload25 i)"

definition tampered25 :: "byte list" where
  "tampered25 = [1, 2, 3, 4, 5, 6, 255, 255, 9, 10, 11, 12, 13, 14, 15, 16, 17, 18, 19, 20,
                 21, 22, 23, 24, 25]"

section \<open>The reconciler tick\<close>

text \<open>
  C1. Once a fingerprint is stored (\<open>lastCommitSHA\<close> is not the empty string), a tick
  whose fetched fingerprint equals the stored one returns with nothing changed: the
  manager (fleet map, \<open>lastConfig\<close>, stored fingerprint) and the world (process table,
  trace of start and stop actions) are the ones it was given.
\<close>

theorem tick_same_fingerprint_is_noop:
  assumes "lastCommitSHA m \<noteq> []"
    and "GetLastCommitSHA githubClient = Inr (lastCommitSHA m)"
  shows "pollConfiguration env githubClient (m, w) = Inr (m, w)"
  using assms by (simp add: pollConfiguration_def)

theorem tick_same_fingerprint_is_noop_witness:
  "lastCommitSHA trackedManager \<noteq> [] \<and>
   GetLastCommitSHA (alphaClient ''0123456789abcdef'') = Inr (lastCommitSHA trackedManager) \<and>
   pollConfiguration exampleEnv (alphaClient ''0123456789abcdef'') (trackedManager, exampleWorld)
     = Inr (trackedManager, exampleWorld)"
proof -
  have stored: "lastCommitSHA trackedManager \<noteq> []"
    by (simp add: trackedManager_def)
  have same: "GetLastCommitSHA (alphaClient ''0123456789abcdef'')
                = Inr (lastCommitSHA trackedManager)"
    by (simp add: trackedManager_def alphaClient_def)
  from tick_same_fingerprint_is_noop [OF stored same] stored same
  show ?thesis by simp
qed

text \<open>
  C9. Outside the first-run branch, when the fetched fingerprint differs from the stored
  one, the tick evaluates \<open>commitSHA[:8]\<close> before anything else: it panics exactly when the
  fingerprint has fewer than eight bytes, and then no diff is applied.
\<close>

theorem tick_panics_iff_short_fingerprint:
  assumes "GetLastCommitSHA githubClient = Inr commitSHA"
    and "\<not> (FirstRun (Server (config m)) \<and> lastCommitSHA m = [])"
    and "commitSHA \<noteq> lastCommitSHA m"
  shows "(pollConfiguration env githubClient (m, w) = Inl SliceBoundsOutOfRange)
         = (length commitSHA < 8)"
  using assms
  by (auto simp add: pollConfiguration_def Let_def split: sum.splits prod.splits)

theorem tick_panics_iff_short_fingerprint_witness:
  "GetLastCommitSHA (alphaClient ''abc123'') = Inr ''abc123'' \<and>
   \<not> (FirstRun (Server (config trackedManager)) \<and> lastCommitSHA trackedManager = []) \<and>
   ''abc123'' \<noteq> lastCommitSHA trackedManager \<and>
   length ''abc123'' < 8 \<and>
   pollConfiguration exampleEnv (alphaClient ''abc123'') (trackedManager, exampleWorld)
     = Inl SliceBoundsOutOfRange"
proof -
  have fetched: "GetLastCommitSHA (alphaClient ''abc123'') = Inr ''abc123''"
    by (simp add: alphaClient_def)
  have later: "\<not> (FirstRun (Server (config trackedManager)) \<and> lastCommitSHA trackedManager = [])"
    by (simp add: trackedManager_def)
  have differs: "''abc123'' \<noteq> lastCommitSHA trackedManager"
    by (simp add: trackedManager_def)
  from tick_panics_iff_short_fingerprint [OF fetched later differs] fetched later differs
  show ?thesis by simp
qed

text \<open>
  C4. A failed fetch is to leave the fleet map and the stored fingerprint as they were,
  in every mode. In first-run mode with no stored fingerprint the tick stores the fetched
  fingerprint before it asks for the document: when that second fetch fails the
  fingerprint stays stored, and the next tick, seeing the same fingerprint, returns
  without fetching the document although it is now available. No instance is started.
\<close>

theorem first_run_fetch_failure_stores_fingerprint:
  "lastCommitSHA firstRunManager = [] \<and>
   pollConfiguration exampleEnv failingClient (firstRunManager, exampleWorld)
     = Inr (firstRunManager\<lparr>lastCommitSHA := ''0123456789abcdef''\<rparr>, exampleWorld) \<and>
   pollConfiguration exampleEnv (alphaClient ''0123456789abcdef'')
     (firstRunManager\<lparr>lastCommitSHA := ''0123456789abcdef''\<rparr>, exampleWorld)
     = Inr (firstRunManager\<lparr>lastCommitSHA := ''0123456789abcdef''\<rparr>, exampleWorld) \<and>
   servers (firstRunManager\<lparr>lastCommitSHA := ''0123456789abcdef''\<rparr>) = []"
  by (simp add: pollConfiguration_def firstRunManager_def NewManager_def exampleConfig_def
        failingClient_def alphaClient_def)

text \<open>
  Outside the first-run branch a tick that returns after a failed fetch changes nothing.
\<close>

lemma fetch_failure_later_ticks:
  assumes "\<not> (FirstRun (Server (config m)) \<and> lastCommitSHA m = [])"
    and "GetLastCommitSHA githubClient = Inl e \<or> GetConfig githubClient = Inl e'"
    and "pollConfiguration env githubClient (m, w) = Inr s"
  shows "s = (m, w)"
  using assms
  by (auto simp add: pollConfiguration_def Let_def split: sum.splits if_splits prod.splits)

section \<open>Handles and statuses of tracked instances\<close>

lemma list_all_update:
  "list_all P al \<Longrightarrow> P (k, v) \<Longrightarrow> list_all P (AList.update k v al)"
  by (induction al) auto

lemma list_all_delete:
  "list_all P al \<Longrightarrow> list_all P (AList.delete k al)"
  by (simp add: AList.delete_eq list_all_iff)

lemma startServer_handleAlways:
  "handleAlways (fst s) \<Longrightarrow> handleAlways (fst (startServer env var s))"
  by (cases s)
     (auto simp add: startServer_def Let_def handleAlways_def entryOk_def hasHandle_def
           intro!: list_all_update)

lemma stopServer_handleAlways:
  "handleAlways (fst s) \<Longrightarrow> handleAlways (fst (stopServer name s))"
  by (cases s)
     (auto simp add: stopServer_def Let_def handleAlways_def
           intro!: list_all_delete split: option.splits)

lemma monitorServer_handleAlways:
  "handleAlways m \<Longrightarrow> handleAlways (monitorServer name cmd failed m)"
proof (cases "map_of (servers m) name")
  case None
  assume "handleAlways m"
  with None show ?thesis by (simp add: monitorServer_def)
next
  case (Some server)
  assume inv: "handleAlways m"
  from Some have "(name, server) \<in> set (servers m)" by (rule map_of_SomeD)
  with inv have "entryOk (name, server)"
    by (simp add: handleAlways_def list_all_iff)
  then have "entryOk (name, server\<lparr>Status := (if failed then ''crashed'' else ''stopped'')\<rparr>)"
    by (simp add: entryOk_def hasHandle_def)
  with inv Some show ?thesis
    by (simp add: monitorServer_def handleAlways_def list_all_update)
qed

lemma step_handleAlways:
  "handleAlways (fst s) \<Longrightarrow> handleAlways (fst (step env t s))"
proof (cases s)
  case (Pair m w)
  assume inv: "handleAlways (fst s)"
  show ?thesis
  proof (cases t)
    case (DoStart sc)
    with Pair inv show ?thesis
      by (simp add: Let_def startServer_handleAlways)
  next
    case (DoStop name)
    with Pair inv show ?thesis
      using stopServer_handleAlways [of "(m, w)" name] by simp
  next
    case (DoExit name cmd failed)
    with Pair inv show ?thesis
      by (simp add: monitorServer_handleAlways)
  qed
qed

lemma run_handleAlways:
  "handleAlways (fst s) \<Longrightarrow> handleAlways (fst (run env ts s))"
  unfolding run_def
  by (induction ts arbitrary: s) (simp_all add: step_handleAlways)

text \<open>
  What one successful start leaves behind when no process holds the ports it cleans.
\<close>

lemma wrap64_id:
  "- 9223372036854775808 \<le> x \<Longrightarrow> x < 9223372036854775808 \<Longrightarrow> wrap64 x = x"
  by (simp add: wrap64_def)

lemma killProcessesOnPort_free:
  "lsof w port = [] \<Longrightarrow> killProcessesOnPort port w = w"
  by (simp add: killProcessesOnPort_def)

lemma lsof_no_procs: "procs w = [] \<Longrightarrow> lsof w port = []"
  by (simp add: lsof_def)

lemma startServer_ok:
  assumes "startFailure env (cells w var) = None"
    and "lsof w (wrap64 (20000 + Port (cells w var) - 19132)) = []"
    and "lsof w 19133 = []"
  shows "startServer env var (m, w) =
     (m\<lparr>servers :=
          AList.update (Name (cells w var))
            \<lparr>Config = var, Process = Some (nextPid w), Status = ''starting'',
             StartTime = clock w + 3000, ServerPort = Port (cells w var), Logs = [],
             MaxLogs = 100\<rparr>
            (servers m)\<rparr>,
      w\<lparr>procs := procs w @
           [(nextPid w, \<lparr>boundPort = wrap64 (20000 + Port (cells w var) - 19132),
                         alive = True,
                         exitsOnInterrupt = serverExitsOnInterrupt env\<rparr>)],
        nextPid := Suc (nextPid w),
        clock := clock w + 8000,
        trace := trace w @ [ProcessStarted (Name (cells w var)) (nextPid w)]\<rparr>)"
  using assms
  by (simp add: startServer_def killProcessesOnPort_free sleep_def Let_def)

lemma exampleServer_fields [simp]:
  "Name (exampleServer name port) = name"
  "Port (exampleServer name port) = port"
  "Version (exampleServer name port) = ''1.20.10''"
  "WorldName (exampleServer name port) = ''world''"
  by (simp_all add: exampleServer_def)

lemma exampleEnv_fields [simp]:
  "startFailure exampleEnv sc = None"
  "serverExitsOnInterrupt exampleEnv = True"
  "interfere exampleEnv fs = fs"
  "extractOutcome exampleEnv bytes = None"
  by (simp_all add: exampleEnv_def)

lemma exampleWorld_fields [simp]:
  "procs exampleWorld = []"
  "nextPid exampleWorld = 100"
  "clock exampleWorld = 0"
  "nextCell exampleWorld = 0"
  "trace exampleWorld = []"
  by (simp_all add: exampleWorld_def)

lemma alphaStarted_servers:
  "servers (fst alphaStarted) =
     [(''alpha'', \<lparr>Config = 0, Process = Some 100, Status = ''starting'', StartTime = 3000,
                   ServerPort = 19132, Logs = [], MaxLogs = 100\<rparr>)]"
  by (simp add: alphaStarted_def Let_def startServer_ok lsof_no_procs NewManager_def)

lemma step_exit_fst:
  "fst (step env (DoExit name cmd failed) s) = monitorServer name cmd failed (fst s)"
  by (cases s) simp

lemma alphaExited_run:
  "run exampleEnv [DoStart (exampleServer ''alpha'' 19132), DoExit ''alpha'' 100 False]
     (NewManager (exampleConfig False 5), exampleWorld) = alphaExited"
  by (simp add: run_def alphaExited_def alphaStarted_def)

lemma alphaExited_servers:
  "servers (fst alphaExited) =
     [(''alpha'', \<lparr>Config = 0, Process = Some 100, Status = ''stopped'', StartTime = 3000,
                   ServerPort = 19132, Logs = [], MaxLogs = 100\<rparr>)]"
  by (simp add: alphaExited_def step_exit_fst monitorServer_def alphaStarted_servers)

text \<open>
  C6, as the data model states it: a handle is present if and only if the status is
  starting or running. It fails after a start followed by the clean exit of the process:
  the entry is then \<open>stopped\<close> and still holds its handle.
\<close>

theorem handle_iff_active_counterexample:
  "\<not> handleIffActive
       (fst (run exampleEnv
               [DoStart (exampleServer ''alpha'' 19132), DoExit ''alpha'' 100 False]
               (NewManager (exampleConfig False 5), exampleWorld)))"
  by (simp add: alphaExited_run alphaExited_servers handleIffActive_def hasHandle_def)

text \<open>
  C6, amended. In every state reached from a new manager by start, stop and exit-waiter
  transitions, every entry of the fleet map holds a process handle, whatever its status,
  and its status is one of \<open>starting\<close>, \<open>stopped\<close>, \<open>crashed\<close>: no transition clears a
  handle, and none sets the status \<open>running\<close>. Nothing is said of which process the
  handle of a \<open>stopped\<close> or \<open>crashed\<close> entry belongs to.
\<close>

theorem every_entry_keeps_its_handle:
  "handleAlways (fst (run env ts (NewManager cfg, w)))"
  by (rule run_handleAlways) (simp add: handleAlways_def NewManager_def)

theorem every_entry_keeps_its_handle_witness:
  "handleAlways
     (fst (run exampleEnv
             [DoStart (exampleServer ''alpha'' 19132), DoExit ''alpha'' 100 False]
             (NewManager (exampleConfig False 5), exampleWorld))) \<and>
   map (\<lambda>entry. (fst entry, Status (snd entry), Process (snd entry)))
     (servers
        (fst (run exampleEnv
                [DoStart (exampleServer ''alpha'' 19132), DoExit ''alpha'' 100 False]
                (NewManager (exampleConfig False 5), exampleWorld))))
     = [(''alpha'', ''stopped'', Some 100)]"
  using every_entry_keeps_its_handle
          [of exampleEnv "[DoStart (exampleServer ''alpha'' 19132), DoExit ''alpha'' 100 False]"
              "exampleConfig False 5" exampleWorld]
  by (simp add: alphaExited_run alphaExited_servers)

section \<open>The exit-waiter\<close>

lemma alphaStarted_world:
  "procs (snd alphaStarted) =
     [(100, \<lparr>boundPort = 20000, alive = True, exitsOnInterrupt = True\<rparr>)]"
  "nextPid (snd alphaStarted) = 101"
  "clock (snd alphaStarted) = 8000"
  "nextCell (snd alphaStarted) = 1"
  "trace (snd alphaStarted) = [ProcessStarted ''alpha'' 100]"
  "cells (snd alphaStarted) 0 = exampleServer ''alpha'' 19132"
  by (simp_all add: alphaStarted_def Let_def startServer_ok lsof_no_procs wrap64_id)

lemma alphaStopped_facts:
  "servers (fst alphaStopped) = []"
  "procs (snd alphaStopped) =
     [(100, \<lparr>boundPort = 20000, alive = False, exitsOnInterrupt = True\<rparr>)]"
  "nextPid (snd alphaStopped) = 101"
  "clock (snd alphaStopped) = 8000"
  "nextCell (snd alphaStopped) = 1"
  "trace (snd alphaStopped) = [ProcessStarted ''alpha'' 100, Signalled 100 Kill, Waited 100]"
proof -
  obtain m w where s: "alphaStarted = (m, w)" by (cases alphaStarted)
  have m: "servers m = [(''alpha'', \<lparr>Config = 0, Process = Some 100, Status = ''starting'', StartTime = 3000,
                   ServerPort = 19132, Logs = [], MaxLogs = 100\<rparr>)]"
    and w: "procs w = [(100, \<lparr>boundPort = 20000, alive = True, exitsOnInterrupt = True\<rparr>)]"
     "nextPid w = 101" "clock w = 8000" "nextCell w = 1" "trace w = [ProcessStarted ''alpha'' 100]"
    using alphaStarted_servers alphaStarted_world unfolding s by simp_all
  show "servers (fst alphaStopped) = []"
  "procs (snd alphaStopped) =
     [(100, \<lparr>boundPort = 20000, alive = False, exitsOnInterrupt = True\<rparr>)]"
  "nextPid (snd alphaStopped) = 101"
  "clock (snd alphaStopped) = 8000"
  "nextCell (snd alphaStopped) = 1"
  "trace (snd alphaStopped) = [ProcessStarted ''alpha'' 100, Signalled 100 Kill, Waited 100]"
    by (simp_all add: alphaStopped_def s stopServer_def m w Process_Kill_def Process_Signal_def
         Cmd_Wait_def deliver_def Let_def)
qed

lemma alphaRestarted_servers:
  "servers (fst alphaRestarted) =
     [(''alpha'', \<lparr>Config = 1, Process = Some 101, Status = ''starting'', StartTime = 11000,
                   ServerPort = 19132, Logs = [], MaxLogs = 100\<rparr>)]"
proof -
  obtain m w where s: "alphaStopped = (m, w)" by (cases alphaStopped)
  have m: "servers m = []"
    and w: "procs w = [(100, \<lparr>boundPort = 20000, alive = False, exitsOnInterrupt = True\<rparr>)]"
     "nextPid w = 101" "clock w = 8000" "nextCell w = 1"
    using alphaStopped_facts unfolding s by simp_all
  show ?thesis
    by (simp add: alphaRestarted_def s Let_def startServer_ok lsof_def m w)
qed

text \<open>
  C10. The exit-waiter's transition is keyed by the instance name and not by the process:
  \<open>monitorServer name cmd\<close> sets the status of whatever entry is mapped under \<open>name\<close>
  (\<open>crashed\<close> on an abnormal exit, \<open>stopped\<close> on a clean one) and gives the same result
  for every \<open>cmd\<close>. When the name has been stopped and started again since the waiter
  was attached, the outcome of the old process is recorded on the new entry.
\<close>

theorem exit_waiter_is_keyed_by_name:
  assumes "map_of (servers m) name = Some server"
  shows "map_of (servers (monitorServer name cmd failed m)) name
           = Some (server\<lparr>Status := (if failed then ''crashed'' else ''stopped'')\<rparr>) \<and>
         monitorServer name cmd failed m = monitorServer name cmd' failed m"
  using assms by (simp add: monitorServer_def AList.update_conv')

theorem exit_waiter_is_keyed_by_name_witness:
  "map_of (servers (fst alphaRestarted)) ''alpha''
     = Some \<lparr>Config = 1, Process = Some 101, Status = ''starting'', StartTime = 11000,
             ServerPort = 19132, Logs = [], MaxLogs = 100\<rparr> \<and>
   map_of (servers (monitorServer ''alpha'' 100 True (fst alphaRestarted))) ''alpha''
     = Some \<lparr>Config = 1, Process = Some 101, Status = ''crashed'', StartTime = 11000,
             ServerPort = 19132, Logs = [], MaxLogs = 100\<rparr>"
proof -
  have tracked: "map_of (servers (fst alphaRestarted)) ''alpha''
     = Some \<lparr>Config = 1, Process = Some 101, Status = ''starting'', StartTime = 11000,
             ServerPort = 19132, Logs = [], MaxLogs = 100\<rparr>"
    by (simp add: alphaRestarted_servers)
  from exit_waiter_is_keyed_by_name [OF tracked, of 100 True 100] tracked
  show ?thesis by simp
qed

section \<open>Admission under the instance cap\<close>

lemma fold_unchanged: "(\<And>x. x \<in> set xs \<Longrightarrow> f x = id) \<Longrightarrow> fold f xs s = s"
  by (induction xs arbitrary: s) simp_all

lemma stopRemoved_all_present:
  assumes "set (map fst (servers (fst s))) \<subseteq> set (map Name (Servers repoConfig))"
  shows "stopRemoved repoConfig s = s"
  unfolding stopRemoved_def
  using assms by (intro fold_unchanged) (auto simp add: fun_eq_iff)

lemma admitOne_at_cap:
  "MaxInstances (Server (config m)) \<le> int (length (servers m)) \<Longrightarrow>
   admitOne env var elem (m, w) = (m, w\<lparr>cells := (cells w)(var := elem)\<rparr>)"
  by (simp add: admitOne_def)

lemma admitOne_new:
  "\<not> MaxInstances (Server (config m)) \<le> int (length (servers m)) \<Longrightarrow>
   map_of (servers m) (Name elem) = None \<Longrightarrow>
   admitOne env var elem (m, w) = startServer env var (m, w\<lparr>cells := (cells w)(var := elem)\<rparr>)"
  by (simp add: admitOne_def)

lemma atCap_facts:
  "servers (fst atCap) =
     [(''alpha'', \<lparr>Config = 0, Process = Some 100, Status = ''starting'', StartTime = 3000,
                   ServerPort = 19132, Logs = [], MaxLogs = 100\<rparr>)]"
  "config (fst atCap) = exampleConfig False 1"
  "trace (snd atCap) = [ProcessStarted ''alpha'' 100]"
  "cells (snd atCap) 0 = exampleServer ''alpha'' 19132"
  by (simp_all add: atCap_def updateServers_def stopRemoved_def NewManager_def admitOne_new
        exampleConfig_def startServer_ok lsof_no_procs)

text \<open>
  C5. A spec whose name is already tracked does not add to the total, and its port,
  version and world name are to be compared even when the fleet is at the maximum. With
  a maximum of one and \<open>alpha\<close> tracked on port 19132, a document that moves \<open>alpha\<close> to
  port 19133 is a changed spec; \<open>updateServers\<close> tests the cap first and skips it: the entry
  keeps its process and its port, and nothing is stopped or started.
\<close>

theorem changed_spec_at_cap_is_skipped:
  "MaxInstances (Server (config (fst atCap))) = 1 \<and>
   map (\<lambda>entry. (fst entry, ServerPort (snd entry), Port (cells (snd atCap) (Config (snd entry)))))
       (servers (fst atCap)) = [(''alpha'', 19132, 19132)] \<and>
   serverConfigChanged (exampleServer ''alpha'' 19132) (exampleServer ''alpha'' 19133) \<and>
   servers (fst (updateServers exampleEnv \<lparr>Servers = [exampleServer ''alpha'' 19133]\<rparr> atCap))
     = servers (fst atCap) \<and>
   trace (snd (updateServers exampleEnv \<lparr>Servers = [exampleServer ''alpha'' 19133]\<rparr> atCap))
     = trace (snd atCap)"
proof -
  obtain m w where s: "atCap = (m, w)" by (cases atCap)
  have m: "servers m =
     [(''alpha'', \<lparr>Config = 0, Process = Some 100, Status = ''starting'', StartTime = 3000,
                   ServerPort = 19132, Logs = [], MaxLogs = 100\<rparr>)]"
    "config m = exampleConfig False 1"
    and w: "trace w = [ProcessStarted ''alpha'' 100]" "cells w 0 = exampleServer ''alpha'' 19132"
    using atCap_facts unfolding s by simp_all
  have kept: "stopRemoved \<lparr>Servers = [exampleServer ''alpha'' 19133]\<rparr> (m, w) = (m, w)"
    by (rule stopRemoved_all_present) (simp add: m)
  have full: "MaxInstances (Server (config m)) \<le> int (length (servers m))"
    by (simp add: m exampleConfig_def)
  show ?thesis
    unfolding s
    by (simp add: updateServers_def kept admitOne_at_cap [OF full] m w exampleConfig_def
          serverConfigChanged_def Let_def)
qed

theorem changed_spec_at_cap_is_skipped_witness:
  "serverConfigChanged (exampleServer ''alpha'' 19132) (exampleServer ''alpha'' 19133) \<and>
   int (length (servers (fst atCap))) = MaxInstances (Server (config (fst atCap))) \<and>
   servers (fst (updateServers exampleEnv \<lparr>Servers = [exampleServer ''alpha'' 19133]\<rparr> atCap))
     = [(''alpha'', \<lparr>Config = 0, Process = Some 100, Status = ''starting'', StartTime = 3000,
                    ServerPort = 19132, Logs = [], MaxLogs = 100\<rparr>)]"
  using changed_spec_at_cap_is_skipped atCap_facts(1) by simp

section \<open>The counts of the status snapshot\<close>

text \<open>
  C7. An instance in status \<open>starting\<close> is to be counted as running. \<open>GetStatus\<close> counts
  an entry as running only when its status is the string \<open>running\<close>: the instance just
  started is counted in the stopped total.
\<close>

theorem starting_instance_is_counted_stopped:
  "map (\<lambda>entry. Status (snd entry)) (servers (fst alphaStarted)) = [''starting''] \<and>
   TotalServers (GetStatus (fst alphaStarted) 9000) = 1 \<and>
   Running (GetStatus (fst alphaStarted) 9000) = 0 \<and>
   Stopped (GetStatus (fst alphaStarted) 9000) = 1"
  by (simp add: GetStatus_def addStatus_def alphaStarted_servers)

text \<open>
  No transition assigns the status \<open>running\<close>, so the running total is zero in every
  state reached by starts, stops and exits.
\<close>

lemma GetStatus_Running_fold:
  "Running (fold (addStatus now) al st) =
     Running st + int (length (filter (\<lambda>entry. Status (snd entry) = ''running'') al))"
  by (induction al arbitrary: st) (auto simp add: addStatus_def Let_def split: prod.splits)

lemma GetStatus_Running:
  "Running (GetStatus m now) =
     int (length (filter (\<lambda>entry. Status (snd entry) = ''running'') (servers m)))"
  by (simp add: GetStatus_def GetStatus_Running_fold)

lemma running_count_always_zero:
  "Running (GetStatus (fst (run env ts (NewManager cfg, w))) now) = 0"
proof -
  have "handleAlways (fst (run env ts (NewManager cfg, w)))"
    by (rule run_handleAlways) (simp add: handleAlways_def NewManager_def)
  then have "filter (\<lambda>entry. Status (snd entry) = ''running'')
               (servers (fst (run env ts (NewManager cfg, w)))) = []"
    by (auto simp add: handleAlways_def entryOk_def list_all_iff filter_empty_conv)
  then show ?thesis by (simp add: GetStatus_Running)
qed

section \<open>Escalation in port reclamation\<close>

lemma sleep_fields [simp]:
  "procs (sleep ms w) = procs w"
  "trace (sleep ms w) = trace w"
  "lsof (sleep ms w) port = lsof w port"
  by (simp_all add: sleep_def lsof_def)

lemma killOne_never_kills:
  "killOne pid w = snd (Process_Signal pid NilSignal (sleep 2000 (snd (Process_Signal pid Interrupt w))))"
  by (simp add: killOne_def Process_Signal_def Let_def)

text \<open>
  C8. After the interrupt and the grace period the process is to be killed if and only
  if it is still alive. The re-check sends the nil signal, which \<open>Process.Signal\<close> rejects
  for a live and for a dead process alike, so the kill branch is never taken: a process
  that ignores the interrupt is still alive and still bound to the port when
  \<open>killProcessesOnPort\<close> returns, and the trace holds no kill.
\<close>

theorem reclaim_never_force_kills:
  "lsof stubbornWorld 20000 = [7] \<and>
   trace (killProcessesOnPort 20000 stubbornWorld) = [Signalled 7 Interrupt, Signalled 7 NilSignal] \<and>
   procs (killProcessesOnPort 20000 stubbornWorld)
     = [(7, \<lparr>boundPort = 20000, alive = True, exitsOnInterrupt = False\<rparr>)] \<and>
   lsof (killProcessesOnPort 20000 stubbornWorld) 20000 = [7]"
proof -
  have found: "lsof stubbornWorld 20000 = [7]"
    by (simp add: lsof_def stubbornWorld_def)
  have one: "procs (killOne 7 stubbornWorld) = [(7, \<lparr>boundPort = 20000, alive = True, exitsOnInterrupt = False\<rparr>)]"
    "trace (killOne 7 stubbornWorld) = [Signalled 7 Interrupt, Signalled 7 NilSignal]"
    by (simp_all add: killOne_never_kills Process_Signal_def Let_def sleep_def deliver_def stubbornWorld_def)
  have still: "lsof (killOne 7 stubbornWorld) 20000 = [7]"
    by (simp add: lsof_def one)
  show ?thesis
    by (simp add: killProcessesOnPort_def found still one Let_def)
qed

section \<open>Splitting and recombining the archive\<close>

lemma itoa_digit: "i < 10 \<Longrightarrow> itoa i = [digitChar i]"
  by (subst itoa.simps) simp

lemma digitChar_inj:
  assumes "i < 10" "j < 10" "digitChar i = digitChar j"
  shows "i = j"
proof -
  have "distinct ''0123456789''" by simp
  moreover have "i < length ''0123456789''" "j < length ''0123456789''"
    using assms by simp_all
  ultimately show ?thesis
    using assms(3) unfolding digitChar_def by (simp only: nth_eq_iff_index_eq)
qed

lemma layerFile_inj: "i < 10 \<Longrightarrow> j < 10 \<Longrightarrow> (layerFile i = layerFile j) = (i = j)"
  by (auto simp add: layerFile_def itoa_digit dest: digitChar_inj)

lemma layerFile_other [simp]:
  "layerFile i \<noteq> bedrockArchive" "layerFile i \<noteq> recombinedFile"
  "bedrockArchive \<noteq> layerFile i" "recombinedFile \<noteq> layerFile i"
  "bedrockArchive \<noteq> recombinedFile" "recombinedFile \<noteq> bedrockArchive"
  by (simp_all add: layerFile_def bedrockArchive_def recombinedFile_def)

lemma chunkOf_early: "i \<noteq> 9 \<Longrightarrow>
  chunkOf bytes i = take (length bytes div 10) (drop (i * (length bytes div 10)) bytes)"
  by (simp add: chunkOf_def)

lemma tenths: "(n::nat) = 9 * (n div 10) + (n div 10 + n mod 10)"
  by presburger

lemma chunkOf_last: "chunkOf bytes 9 = drop (9 * (length bytes div 10)) bytes"
proof -
  have "length bytes - 9 * (length bytes div 10)
          \<le> length bytes div 10 + length bytes mod 10"
    using tenths [of "length bytes"] by linarith
  then show ?thesis by (simp add: chunkOf_def)
qed

lemma length_chunkOf:
  assumes "i < 10"
  shows "length (chunkOf bytes i) =
     (if i = 9 then length bytes div 10 + length bytes mod 10 else length bytes div 10)"
proof (cases "i = 9")
  case True
  have "length bytes - 9 * (length bytes div 10)
          = length bytes div 10 + length bytes mod 10"
    using tenths [of "length bytes"] by linarith
  then have "length (drop (9 * (length bytes div 10)) bytes)
          = length bytes div 10 + length bytes mod 10"
    by simp
  with True show ?thesis by (simp add: chunkOf_last)
next
  case False
  let ?L = "length bytes div 10"
  from False assms have "Suc i \<le> 9" by simp
  then have "Suc i * ?L \<le> 9 * ?L" by (rule mult_le_mono1)
  then have "i * ?L + ?L \<le> 9 * ?L" by simp
  with tenths [of "length bytes"] have "i * ?L + ?L \<le> length bytes" by linarith
  with False show ?thesis by (simp add: chunkOf_def)
qed

lemma split_prefix:
  assumes a: "fs a = Some bytes" and away: "\<forall>i. layerFile i \<noteq> a" and k: "k \<le> 9"
  shows "\<exists>fs'. fold (copyLayer a (length bytes div 10) r) [0..<k] (0, fs)
                  = (k * (length bytes div 10), fs') \<and>
               fs' a = Some bytes \<and>
               (\<forall>i<k. fs' (layerFile i) = Some (chunkOf bytes i)) \<and>
               (\<forall>p. (\<forall>i<k. p \<noteq> layerFile i) \<longrightarrow> fs' p = fs p)"
  using k
proof (induction k)
  case 0
  with a show ?case by simp
next
  case (Suc k)
  then obtain fs' where
    run: "fold (copyLayer a (length bytes div 10) r) [0..<k] (0, fs)
            = (k * (length bytes div 10), fs')"
    and orig: "fs' a = Some bytes"
    and filled: "\<forall>i<k. fs' (layerFile i) = Some (chunkOf bytes i)"
    and rest: "\<forall>p. (\<forall>i<k. p \<noteq> layerFile i) \<longrightarrow> fs' p = fs p"
    by auto
  let ?L = "length bytes div 10"
  let ?fs = "fs'(layerFile k \<mapsto> chunkOf bytes k)"
  from Suc.prems have k9: "k \<noteq> 9" "k < 10" by simp_all
  have len: "length (chunkOf bytes k) = ?L"
    using k9 by (simp add: length_chunkOf)
  have step: "copyLayer a ?L r k (k * ?L, fs') = (Suc k * ?L, ?fs)"
    using k9 len orig away [rule_format, of k]
    by (simp add: copyLayer_def content_def chunkOf_early Let_def)
  have "fold (copyLayer a ?L r) [0..<Suc k] (0, fs) = (Suc k * ?L, ?fs)"
    using run step by simp
  moreover have "?fs a = Some bytes"
    using orig away [rule_format, of k] by simp
  moreover have "\<forall>i<Suc k. ?fs (layerFile i) = Some (chunkOf bytes i)"
    using filled k9 Suc.prems by (auto simp add: less_Suc_eq layerFile_inj)
  moreover have "\<forall>p. (\<forall>i<Suc k. p \<noteq> layerFile i) \<longrightarrow> ?fs p = fs p"
    using rest by auto
  ultimately show ?case by blast
qed

lemma splitArchive_layers:
  assumes a: "fs a = Some bytes" and away: "\<forall>i. layerFile i \<noteq> a"
  shows "\<exists>fs1. splitArchive a fs = Inr fs1 \<and>
               fs1 a = Some bytes \<and>
               (\<forall>i<10. fs1 (layerFile i) = Some (chunkOf bytes i)) \<and>
               (\<forall>p. (\<forall>i<10. p \<noteq> layerFile i) \<longrightarrow> fs1 p = fs p)"
proof -
  let ?L = "length bytes div 10"
  let ?r = "length bytes mod 10"
  from split_prefix [where fs = fs and a = a and bytes = bytes and k = 9 and r = "?r", OF a away] obtain fs' where
    run: "fold (copyLayer a ?L ?r) [0..<9] (0, fs) = (9 * ?L, fs')"
    and orig: "fs' a = Some bytes"
    and filled: "\<forall>i<9. fs' (layerFile i) = Some (chunkOf bytes i)"
    and rest: "\<forall>p. (\<forall>i<9. p \<noteq> layerFile i) \<longrightarrow> fs' p = fs p"
    by auto
  let ?fs = "fs'(layerFile 9 \<mapsto> chunkOf bytes 9)"
  have step: "snd (copyLayer a ?L ?r 9 (9 * ?L, fs')) = ?fs"
    using orig away [rule_format, of 9]
    by (simp add: copyLayer_def content_def chunkOf_def Let_def)
  have ten: "[0..<10] = [0..<9] @ [9::nat]"
    by (simp add: upt_rec)
  have "splitArchive a fs = Inr ?fs"
    using a run step by (simp add: splitArchive_def ten)
  moreover have "?fs a = Some bytes"
    using orig away [rule_format, of 9] by simp
  moreover have "\<forall>i<10. ?fs (layerFile i) = Some (chunkOf bytes i)"
  proof (intro allI impI)
    fix i :: nat assume "i < 10"
    then consider "i < 9" | "i = 9" by linarith
    then show "?fs (layerFile i) = Some (chunkOf bytes i)"
    proof cases
      case 1
      then have "layerFile i \<noteq> layerFile 9" by (simp add: layerFile_inj)
      with 1 filled show ?thesis by simp
    next
      case 2
      then show ?thesis by simp
    qed
  qed
  moreover have "\<forall>p. (\<forall>i<10. p \<noteq> layerFile i) \<longrightarrow> ?fs p = fs p"
  proof (intro allI impI)
    fix p assume other: "\<forall>i<10. p \<noteq> layerFile i"
    then have "p \<noteq> layerFile 9" and "\<forall>i<9. p \<noteq> layerFile i" by simp_all
    with rest show "?fs p = fs p" by simp
  qed
  ultimately show ?thesis by blast
qed

lemma chunks_prefix:
  "k \<le> 9 \<Longrightarrow>
   concat (map (chunkOf bytes) [0..<k]) = take (k * (length bytes div 10)) bytes"
proof (induction k)
  case 0
  show ?case by simp
next
  case (Suc k)
  let ?L = "length bytes div 10"
  from Suc.prems have k: "k \<noteq> 9" "k \<le> 9" by simp_all
  have "concat (map (chunkOf bytes) [0..<Suc k])
          = concat (map (chunkOf bytes) [0..<k]) @ chunkOf bytes k"
    by simp
  also have "\<dots> = take (k * ?L) bytes @ take ?L (drop (k * ?L) bytes)"
    using Suc.IH k by (simp add: chunkOf_early)
  also have "\<dots> = take (k * ?L + ?L) bytes"
    by (rule take_add [symmetric])
  finally show ?case by (simp add: add.commute)
qed

lemma chunks_concat: "concat (map (chunkOf bytes) [0..<10]) = bytes"
proof -
  have "[0..<10] = [0..<9] @ [9::nat]" by (simp add: upt_rec)
  then have "concat (map (chunkOf bytes) [0..<10])
               = concat (map (chunkOf bytes) [0..<9]) @ chunkOf bytes 9"
    by simp
  also have "\<dots> = take (9 * (length bytes div 10)) bytes
                  @ drop (9 * (length bytes div 10)) bytes"
    by (simp only: chunks_prefix [of 9] chunkOf_last)
  finally show ?thesis by simp
qed

lemma appendLayers_concat:
  assumes "\<And>i. i \<in> set is \<Longrightarrow> fs (layerFile i) = Some (c i)"
    and "fs recombinedFile = Some out"
  shows "appendLayers is fs = Inr (fs(recombinedFile \<mapsto> out @ concat (map c is)))"
  using assms
proof (induction "is" arbitrary: fs out)
  case Nil
  then show ?case by (simp add: fun_eq_iff)
next
  case (Cons i rest)
  let ?fs = "fs(recombinedFile \<mapsto> out @ c i)"
  have layers: "\<And>j. j \<in> set rest \<Longrightarrow> ?fs (layerFile j) = Some (c j)"
    using Cons.prems(1) by simp
  have out: "?fs recombinedFile = Some (out @ c i)" by simp
  have "appendLayers (i # rest) fs = appendLayers rest ?fs"
    using Cons.prems(1) [of i] Cons.prems(2) by (simp add: content_def)
  also have "\<dots> = Inr (?fs(recombinedFile \<mapsto> (out @ c i) @ concat (map c rest)))"
    using layers out by (rule Cons.IH)
  also have "?fs(recombinedFile \<mapsto> (out @ c i) @ concat (map c rest))
               = fs(recombinedFile \<mapsto> out @ concat (map c (i # rest)))"
    by simp
  finally show ?case .
qed

lemma recombineLayers_result:
  assumes layers: "\<And>i. i < 10 \<Longrightarrow> fs (layerFile i) = Some (c i)"
    and orig: "fs bedrockArchive = Some original"
  shows "recombineLayers env fs =
     (if sha256Hex env original \<noteq> sha256Hex env (concat (map c [0..<10]))
      then Inl (HashesDontMatch (sha256Hex env original)
                  (sha256Hex env (concat (map c [0..<10]))))
      else Inr (fs(recombinedFile \<mapsto> concat (map c [0..<10]))))"
proof -
  let ?fs = "fs(recombinedFile \<mapsto> [])"
  have "\<And>i. i \<in> set [0..<10] \<Longrightarrow> ?fs (layerFile i) = Some (c i)"
    using layers by simp
  moreover have "?fs recombinedFile = Some []" by simp
  ultimately have "appendLayers [0..<10] ?fs
                     = Inr (?fs(recombinedFile \<mapsto> [] @ concat (map c [0..<10])))"
    by (rule appendLayers_concat)
  then show ?thesis
    using orig
    by (simp add: recombineLayers_def verifyIntegrity_def calculateFileHash_def)
qed

text \<open>
  C2. For every payload stored as the archive, of any size, \<open>splitArchive\<close> writes the ten
  layer files and nothing else; layers 0 to 8 hold \<open>floor(size/10)\<close> bytes each and layer 9
  holds \<open>floor(size/10) + size mod 10\<close> bytes; layer \<open>i\<close> is the \<open>i\<close>-th consecutive byte range
  of the payload, so the ten layers in index order concatenate to the payload.
  \<open>recombineLayers\<close> then succeeds (its integrity check included) and the recombined file
  holds exactly the bytes of the source.
\<close>

theorem split_then_recombine_roundtrip:
  assumes "fs bedrockArchive = Some payload"
  shows "\<exists>fs1 fs2.
     splitArchive bedrockArchive fs = Inr fs1 \<and>
     (\<forall>i<10. fs1 (layerFile i) = Some (chunkOf payload i)) \<and>
     (\<forall>p. (\<forall>i<10. p \<noteq> layerFile i) \<longrightarrow> fs1 p = fs p) \<and>
     (\<forall>i<9. length (chunkOf payload i) = length payload div 10) \<and>
     length (chunkOf payload 9) = length payload div 10 + length payload mod 10 \<and>
     concat (map (chunkOf payload) [0..<10]) = payload \<and>
     recombineLayers env fs1 = Inr fs2 \<and>
     fs2 recombinedFile = Some payload \<and>
     (\<forall>p. p \<noteq> recombinedFile \<longrightarrow> fs2 p = fs1 p)"
proof -
  have away: "\<forall>i. layerFile i \<noteq> bedrockArchive" by simp
  from splitArchive_layers [where fs = fs and a = bedrockArchive and bytes = payload, OF assms away] obtain fs1 where
    split: "splitArchive bedrockArchive fs = Inr fs1"
    and orig: "fs1 bedrockArchive = Some payload"
    and layers: "\<forall>i<10. fs1 (layerFile i) = Some (chunkOf payload i)"
    and rest: "\<forall>p. (\<forall>i<10. p \<noteq> layerFile i) \<longrightarrow> fs1 p = fs p"
    by blast
  let ?fs2 = "fs1(recombinedFile \<mapsto> payload)"
  have "recombineLayers env fs1 = Inr ?fs2"
    using recombineLayers_result [of fs1 "chunkOf payload" payload env] layers orig
    by (simp only: chunks_concat) simp
  moreover have "\<forall>i<9. length (chunkOf payload i) = length payload div 10"
    by (simp add: length_chunkOf)
  moreover have "length (chunkOf payload 9) = length payload div 10 + length payload mod 10"
    by (simp add: length_chunkOf)
  ultimately show ?thesis
    using split layers rest chunks_concat [of payload]
    by (intro exI [of _ fs1] exI [of _ ?fs2]) simp
qed

theorem split_then_recombine_roundtrip_witness:
  "archiveOnly bedrockArchive = Some payload25 \<and>
   length payload25 = 25 \<and>
   (\<exists>fs1 fs2.
      splitArchive bedrockArchive archiveOnly = Inr fs1 \<and>
      fs1 (layerFile 0) = Some [1, 2] \<and>
      fs1 (layerFile 8) = Some [17, 18] \<and>
      fs1 (layerFile 9) = Some [19, 20, 21, 22, 23, 24, 25] \<and>
      recombineLayers exampleEnv fs1 = Inr fs2 \<and>
      fs2 recombinedFile = Some payload25)"
proof -
  have present: "archiveOnly bedrockArchive = Some payload25"
    by (simp add: archiveOnly_def)
  from split_then_recombine_roundtrip
       [where fs = archiveOnly and payload = payload25 and env = exampleEnv, OF present]
  obtain fs1 fs2 where
    split: "splitArchive bedrockArchive archiveOnly = Inr fs1"
    and layers: "\<forall>i<10. fs1 (layerFile i) = Some (chunkOf payload25 i)"
    and joined: "recombineLayers exampleEnv fs1 = Inr fs2" "fs2 recombinedFile = Some payload25"
    by blast
  have "chunkOf payload25 0 = [1, 2]" "chunkOf payload25 8 = [17, 18]"
    "chunkOf payload25 9 = [19, 20, 21, 22, 23, 24, 25]"
    by (simp_all add: chunkOf_def payload25_def)
  with layers have "fs1 (layerFile 0) = Some [1, 2]" "fs1 (layerFile 8) = Some [17, 18]"
    "fs1 (layerFile 9) = Some [19, 20, 21, 22, 23, 24, 25]"
    by simp_all
  with present split joined show ?thesis
    by (auto simp add: payload25_def)
qed

section \<open>Corrupted layers\<close>

lemma Process_Signal_trace:
  "trace (snd (Process_Signal pid sig w)) = trace w @ [Signalled pid sig]"
  by (simp add: Process_Signal_def Let_def split: option.splits)

lemma killOne_starts: "filter isStart (trace (killOne pid w)) = filter isStart (trace w)"
  by (simp add: killOne_never_kills Process_Signal_trace)

lemma fold_killOne_starts:
  "filter isStart (trace (fold killOne pids w)) = filter isStart (trace w)"
  by (induction pids arbitrary: w) (simp_all add: killOne_starts)

lemma killProcessesOnPort_starts:
  "filter isStart (trace (killProcessesOnPort port w)) = filter isStart (trace w)"
  by (simp add: killProcessesOnPort_def Let_def fold_killOne_starts)

lemma cleanupPortsOnStartup_starts:
  "filter isStart (trace (cleanupPortsOnStartup w)) = filter isStart (trace w)"
proof -
  have "filter isStart (trace (fold killProcessesOnPort ports w)) = filter isStart (trace w)"
    for ports
    by (induction ports arbitrary: w) (simp_all add: killProcessesOnPort_starts)
  then show ?thesis by (simp add: cleanupPortsOnStartup_def)
qed

lemma fold_remove_layers:
  "(fold (\<lambda>i fs'. fs'(layerFile i := None)) is fs) path
     = (if path \<in> layerFile ` set is then None else fs path)"
  by (induction "is" arbitrary: fs) auto

lemma cleanupLayers_keeps_archive: "cleanupLayers fs bedrockArchive = fs bedrockArchive"
  by (simp add: cleanupLayers_def fold_remove_layers image_iff)

lemma sha256_abc:
  "sha256SumHex [0x61, 0x62, 0x63]
     = ''ba7816bf8f01cfea414140de5dae2223b00361a396177a9cb410ff61f20015ad''"
  by code_simp

lemma payload25_digest:
  "sha256SumHex payload25
     = ''e39fbb74e9cb4d660e5a4ce5af068ad114c7408c36fd51554928c89dadc50658''"
  by code_simp

lemma tampered25_digest:
  "sha256SumHex tampered25
     = ''024e474713bd43c0d5d428c89d0302d74d0a8a2c65eef855130643fd25914462''"
  by code_simp

lemma tampered25_layers: "concat (map tamperedLayer [0..<10]) = tampered25"
  by code_simp

text \<open>
  C3. Let the archive hold a payload, and let the layer files, when \<open>recombineLayers\<close>
  reads them, have the sizes of the ten byte ranges of the payload while at least one of
  them differs from its range. The bytes they concatenate to then differ from the
  payload. When SHA-256 gives these bytes and the payload different digests, as it does
  unless the corruption happens to be a collision of SHA-256, the integrity check fails
  with the hash-mismatch error, \<open>initializeBedrockServer\<close> returns that error, and \<open>Start\<close>
  returns at once: the manager is unchanged, no tick runs, and the trace holds no start
  of a server process.
\<close>

theorem corrupted_layer_aborts_start:
  assumes archive: "fs bedrockArchive = Some payload"
    and split: "splitArchive bedrockArchive (cleanupLayers fs) = Inr fs1"
    and intact: "interfere env fs1 bedrockArchive = Some payload"
    and layers: "\<forall>i<10. interfere env fs1 (layerFile i) = Some (c i) \<and>
                         length (c i) = length (chunkOf payload i)"
    and flipped: "\<exists>i<10. c i \<noteq> chunkOf payload i"
    and digests: "sha256Hex env (concat (map c [0..<10])) \<noteq> sha256Hex env payload"
  shows "concat (map c [0..<10]) \<noteq> payload \<and>
         recombineLayers env (interfere env fs1)
           = Inl (HashesDontMatch (sha256Hex env payload)
                    (sha256Hex env (concat (map c [0..<10])))) \<and>
         initializeBedrockServer env (m, fs)
           = Inl (HashesDontMatch (sha256Hex env payload)
                    (sha256Hex env (concat (map c [0..<10])))) \<and>
         Start env fs githubClient occurrences (m, w) = Inr (m, cleanupPortsOnStartup w) \<and>
         filter isStart (trace (cleanupPortsOnStartup w)) = filter isStart (trace w)"
proof -
  from flipped obtain j where j: "j < 10" "c j \<noteq> chunkOf payload j"
    by auto
  have "map c [0..<10] \<noteq> map (chunkOf payload) [0..<10]"
    using j by auto
  moreover have "\<forall>(x, y) \<in> set (zip (map c [0..<10]) (map (chunkOf payload) [0..<10])).
                   length x = length y"
    using layers by (auto simp add: zip_map_map in_set_zip)
  ultimately have "concat (map c [0..<10]) \<noteq> concat (map (chunkOf payload) [0..<10])"
    by (simp add: concat_eq_concat_iff)
  then have differ: "concat (map c [0..<10]) \<noteq> payload"
    by (simp add: chunks_concat)
  let ?h = "sha256Hex env payload"
  let ?h' = "sha256Hex env (concat (map c [0..<10]))"
  from digests have hashes: "?h \<noteq> ?h'"
    by simp
  have read: "\<And>i. i < 10 \<Longrightarrow> interfere env fs1 (layerFile i) = Some (c i)"
    using layers by simp
  have joined: "recombineLayers env (interfere env fs1) = Inl (HashesDontMatch ?h ?h')"
    using recombineLayers_result [where fs = "interfere env fs1" and c = c
        and original = payload and env = env, OF read intact] hashes
    by simp
  have init: "initializeBedrockServer env (m, fs) = Inl (HashesDontMatch ?h ?h')"
    using archive split joined by (simp add: initializeBedrockServer_def)
  have "Start env fs githubClient occurrences (m, w) = Inr (m, cleanupPortsOnStartup w)"
    using init by (simp add: Start_def Let_def)
  with differ joined init cleanupPortsOnStartup_starts show ?thesis
    by simp
qed

theorem corrupted_layer_aborts_start_witness:
  "archiveOnly bedrockArchive = Some payload25 \<and>
   chunkOf payload25 3 = [7, 8] \<and>
   tamperedLayer 3 = [255, 255] \<and>
   sha256Hex tamperEnv tampered25 \<noteq> sha256Hex tamperEnv payload25 \<and>
   initializeBedrockServer tamperEnv (NewManager (exampleConfig False 5), archiveOnly)
     = Inl (HashesDontMatch
              ''e39fbb74e9cb4d660e5a4ce5af068ad114c7408c36fd51554928c89dadc50658''
              ''024e474713bd43c0d5d428c89d0302d74d0a8a2c65eef855130643fd25914462'') \<and>
   Start tamperEnv archiveOnly (alphaClient ''0123456789abcdef'')
     [Tick (alphaClient ''0123456789abcdef'')]
     (NewManager (exampleConfig False 5), exampleWorld)
     = Inr (NewManager (exampleConfig False 5), cleanupPortsOnStartup exampleWorld) \<and>
   filter isStart (trace (cleanupPortsOnStartup exampleWorld)) = []"
proof -
  have sha: "sha256Hex tamperEnv = sha256SumHex"
    by (simp add: tamperEnv_def exampleEnv_def)
  have archive: "archiveOnly bedrockArchive = Some payload25"
    by (simp add: archiveOnly_def)
  have range3: "chunkOf payload25 3 = [7, 8]"
    by (simp add: chunkOf_def payload25_def)
  have away: "\<forall>i. layerFile i \<noteq> bedrockArchive" by simp
  have "cleanupLayers archiveOnly bedrockArchive = Some payload25"
    by (simp add: cleanupLayers_keeps_archive archive)
  from splitArchive_layers [where fs = "cleanupLayers archiveOnly" and a = bedrockArchive
         and bytes = payload25, OF this away]
  obtain fs1 where
    split: "splitArchive bedrockArchive (cleanupLayers archiveOnly) = Inr fs1"
    and orig: "fs1 bedrockArchive = Some payload25"
    and written: "\<forall>i<10. fs1 (layerFile i) = Some (chunkOf payload25 i)"
    by blast
  have tamper: "interfere tamperEnv fs1 = fs1(layerFile 3 \<mapsto> [255, 255])"
    by (simp add: tamperEnv_def)
  have intact: "interfere tamperEnv fs1 bedrockArchive = Some payload25"
    by (simp add: tamper orig)
  have layers: "\<forall>i<10. interfere tamperEnv fs1 (layerFile i) = Some (tamperedLayer i) \<and>
                         length (tamperedLayer i) = length (chunkOf payload25 i)"
    using written by (auto simp add: tamper range3 layerFile_inj tamperedLayer_def)
  have "tamperedLayer 3 \<noteq> chunkOf payload25 3"
    by (simp add: tamperedLayer_def range3)
  then have flipped: "\<exists>i<10. tamperedLayer i \<noteq> chunkOf payload25 i"
    by (intro exI [of _ 3]) simp
  have digests: "sha256Hex tamperEnv (concat (map tamperedLayer [0..<10]))
                   \<noteq> sha256Hex tamperEnv payload25"
    by (simp add: sha tampered25_layers tampered25_digest payload25_digest)
  from corrupted_layer_aborts_start
         [where env = tamperEnv and fs = archiveOnly and payload = payload25 and ?fs1.0 = fs1
            and c = tamperedLayer
            and m = "NewManager (exampleConfig False 5)" and w = exampleWorld
            and githubClient = "alphaClient ''0123456789abcdef''"
            and occurrences = "[Tick (alphaClient ''0123456789abcdef'')]",
          OF archive split intact layers flipped digests]
       archive range3
  show ?thesis
    by (simp add: sha tampered25_layers tampered25_digest payload25_digest tamperedLayer_def)
qed

end
